theory Spec2Isabelle
  imports Main "HOL-Library.AList" "HOL-Library.Sublist"
begin

section \<open>Values, objects and the heap\<close>

text \<open>
  A JavaScript value is a primitive or a reference to an object of the heap. Two
  references are the same object exactly when their addresses are equal. Numbers are
  modelled by integers; functions and symbols are not values of the model.
\<close>

type_synonym addr = nat

datatype val = Undefined | Null | Bool bool | Num int | Str string | Ref addr

text \<open>
  The built-in prototype a class derives from: it decides \<open>instanceof Array\<close>,
  \<open>instanceof Set\<close>, \<open>instanceof Map\<close> and \<open>instanceof Date\<close>.
\<close>

datatype base = BObject | BArray | BSet | BMap | BDate

text \<open>
  A class, seen through its prototype: \<open>cname\<close> is \<open>constructor.name\<close>,
  \<open>pdefined\<close> lists the property names that read as something other than
  \<open>undefined\<close> through the prototype chain (methods, getters), and \<open>marked\<close>
  says that the symbol \<open>Serializable.SERIALIZED_CLASS\<close> is found through the
  prototype.
\<close>

record cls =
  cname :: string
  base :: base
  pdefined :: "string list"
  marked :: bool

text \<open>
  The internal slot of an object: what \<open>new Array()\<close>, \<open>new Set()\<close>,
  \<open>new Map()\<close> and \<open>new Date(..)\<close> create. A set keeps its members and a map
  its entries in insertion order; the time value of a date is kept as its ISO-8601
  rendering (what \<open>toISOString\<close> returns), \<open>None\<close> when the date is invalid.
\<close>

datatype slot = NoSlot | ArraySlot | SetSlot "val list" | MapSlot "(val \<times> val) list"
  | DateSlot "string option"

text \<open>
  An object: its prototype (\<open>None\<close> for \<open>Object.create(null)\<close>), its internal
  slot and its own enumerable string-keyed properties in the order \<open>for .. in\<close>
  enumerates them. The elements of an array are its properties \<open>0\<close>, \<open>1\<close>, ...
\<close>

record obj =
  proto :: "cls option"
  slot :: slot
  props :: "(string \<times> val) list"

type_synonym heap = "obj list"

text \<open>
  Outcomes. \<open>OutOfFuel\<close> is a recursion that was cut off; \<open>Throw\<close> is a JavaScript
  exception. \<open>Unmodelled\<close> marks the inputs this model does not follow: an address
  with no object, an own property named \<open>constructor\<close> or \<open>__proto__\<close>, a
  \<open>toJSON\<close> method.
\<close>

datatype error = TypeError | RangeError | SyntaxError | Unmodelled

datatype 'a res = OutOfFuel | Throw error | Ok 'a

definition bind :: "'a res \<Rightarrow> ('a \<Rightarrow> 'b res) \<Rightarrow> 'b res" where
  "bind m f = (case m of OutOfFuel \<Rightarrow> OutOfFuel | Throw e \<Rightarrow> Throw e | Ok x \<Rightarrow> f x)"

definition lookup :: "heap \<Rightarrow> addr \<Rightarrow> obj res" where
  "lookup h a = (if a < length h then Ok (h ! a) else Throw Unmodelled)"

definition alloc :: "obj \<Rightarrow> heap \<Rightarrow> addr \<times> heap" where
  "alloc ob h = (length h, h @ [ob])"

subsection \<open>The built-in classes\<close>

definition object_names :: "string list" where
  "object_names = [''constructor'', ''__defineGetter__'', ''__defineSetter__'',
     ''hasOwnProperty'', ''__lookupGetter__'', ''__lookupSetter__'', ''isPrototypeOf'',
     ''propertyIsEnumerable'', ''toString'', ''valueOf'', ''__proto__'',
     ''toLocaleString'']"

definition ObjectC :: cls where
  "ObjectC = \<lparr>cname = ''Object'', base = BObject, pdefined = object_names, marked = False\<rparr>"

definition ArrayC :: cls where
  "ArrayC = \<lparr>cname = ''Array'', base = BArray,
     pdefined = object_names @ [''length'', ''at'', ''concat'', ''copyWithin'', ''fill'',
       ''find'', ''findIndex'', ''findLast'', ''findLastIndex'', ''lastIndexOf'', ''pop'',
       ''push'', ''reverse'', ''shift'', ''unshift'', ''slice'', ''sort'', ''splice'',
       ''includes'', ''indexOf'', ''join'', ''keys'', ''entries'', ''values'', ''forEach'',
       ''filter'', ''flat'', ''flatMap'', ''map'', ''every'', ''some'', ''reduce'',
       ''reduceRight'', ''toReversed'', ''toSorted'', ''toSpliced'', ''with''],
     marked = False\<rparr>"

definition SetC :: cls where
  "SetC = \<lparr>cname = ''Set'', base = BSet,
     pdefined = object_names @ [''has'', ''add'', ''delete'', ''clear'', ''entries'',
       ''forEach'', ''size'', ''values'', ''keys''],
     marked = False\<rparr>"

definition MapC :: cls where
  "MapC = \<lparr>cname = ''Map'', base = BMap,
     pdefined = object_names @ [''get'', ''set'', ''has'', ''delete'', ''clear'',
       ''entries'', ''forEach'', ''keys'', ''size'', ''values''],
     marked = False\<rparr>"

definition DateC :: cls where
  "DateC = \<lparr>cname = ''Date'', base = BDate,
     pdefined = object_names @ [''toDateString'', ''toTimeString'', ''toISOString'',
       ''toUTCString'', ''toGMTString'', ''getDate'', ''setDate'', ''getDay'',
       ''getFullYear'', ''setFullYear'', ''getHours'', ''setHours'', ''getMilliseconds'',
       ''setMilliseconds'', ''getMinutes'', ''setMinutes'', ''getMonth'', ''setMonth'',
       ''getSeconds'', ''setSeconds'', ''getTime'', ''setTime'', ''getTimezoneOffset'',
       ''getUTCDate'', ''setUTCDate'', ''getUTCDay'', ''getUTCFullYear'',
       ''setUTCFullYear'', ''getUTCHours'', ''setUTCHours'', ''getUTCMilliseconds'',
       ''setUTCMilliseconds'', ''getUTCMinutes'', ''setUTCMinutes'', ''getUTCMonth'',
       ''setUTCMonth'', ''getUTCSeconds'', ''setUTCSeconds'', ''getYear'', ''setYear'',
       ''toJSON'', ''toLocaleDateString'', ''toLocaleTimeString''],
     marked = False\<rparr>"

subsection \<open>Reading and writing properties\<close>

text \<open>\<open>value && typeof value === "object"\<close>: true of references only.\<close>

fun isObject :: "val \<Rightarrow> bool" where
  "isObject (Ref a) = True"
| "isObject v = False"

text \<open>
  \<open>typeof o[key] === "undefined"\<close>: the own property if there is one, the
  \<open>length\<close> of an array, and otherwise what the prototype chain defines.
\<close>

definition reads_undefined :: "obj \<Rightarrow> string \<Rightarrow> bool" where
  "reads_undefined ob key =
     (case map_of (props ob) key of
        Some v \<Rightarrow> v = Undefined
      | None \<Rightarrow>
          \<not> (slot ob = ArraySlot \<and> key = ''length'') \<and>
          (case proto ob of None \<Rightarrow> True | Some c \<Rightarrow> key \<notin> set (pdefined c)))"

text \<open>\<open>o[key] = v\<close> on an object of the heap: the own property is updated in place or added last.\<close>

definition set_prop :: "addr \<Rightarrow> string \<Rightarrow> val \<Rightarrow> heap \<Rightarrow> heap" where
  "set_prop a key v h = h[a := (h ! a)\<lparr>props := AList.update key v (props (h ! a))\<rparr>]"

text \<open>
  \<open>set.add(v)\<close> and \<open>map.set(k, v)\<close>: both need the internal slot and throw a
  TypeError on any other receiver.
\<close>

definition set_add :: "addr \<Rightarrow> val \<Rightarrow> heap \<Rightarrow> heap res" where
  "set_add a v h =
     (case slot (h ! a) of
        SetSlot xs \<Rightarrow> Ok (h[a := (h ! a)\<lparr>slot := SetSlot (if v \<in> set xs then xs else xs @ [v])\<rparr>])
      | _ \<Rightarrow> Throw TypeError)"

definition map_set :: "addr \<Rightarrow> val \<Rightarrow> val \<Rightarrow> heap \<Rightarrow> heap res" where
  "map_set a k v h =
     (case slot (h ! a) of
        MapSlot es \<Rightarrow> Ok (h[a := (h ! a)\<lparr>slot := MapSlot (AList.update k v es)\<rparr>])
      | _ \<Rightarrow> Throw TypeError)"

text \<open>
  \<open>instance.constructor\<close>, read through the prototype: absent on an object without
  prototype. An own property of that name is outside the model.
\<close>

definition constructor_of :: "obj \<Rightarrow> cls option res" where
  "constructor_of ob =
     (if ''constructor'' \<in> fst ` set (props ob) \<or> ''__proto__'' \<in> fst ` set (props ob)
      then Throw Unmodelled else Ok (proto ob))"

text \<open>
  \<open>instance.hasOwnProperty(key)\<close> inside a \<open>for .. in\<close> loop: an own property
  named \<open>hasOwnProperty\<close> shadows the method with a value that cannot be called.
\<close>

definition hasOwnProperty_callable :: "(string \<times> 'a) list \<Rightarrow> bool" where
  "hasOwnProperty_callable ps = (''hasOwnProperty'' \<notin> fst ` set ps)"

section \<open>UiUtils.deepCopy\<close>

text \<open>The \<open>seen\<close> table: a \<open>Map\<close> from source objects to their copies.\<close>

type_synonym seen_copy = "(addr \<times> val) list"

type_synonym cstate = "heap \<times> seen_copy"

text \<open>\<open>level === -1 ? -1 : level - 1\<close>\<close>

definition next_level :: "int \<Rightarrow> int" where
  "next_level level = (if level = -1 then -1 else level - 1)"

text \<open>
  The shell \<open>copyObject\<close> allocates for an instance (lines 36-49): chosen by
  \<open>instanceof\<close>, then given the prototype \<open>instance.constructor.prototype\<close>.
  \<open>new Date(instance)\<close> needs the time value of its argument.
\<close>

definition copy_shell :: "obj \<Rightarrow> obj res" where
  "copy_shell ob =
     bind (constructor_of ob) (\<lambda>ctor.
       case ctor of
         None \<Rightarrow> Throw TypeError
       | Some c \<Rightarrow>
           if base c = BArray then Ok \<lparr>proto = Some c, slot = ArraySlot, props = []\<rparr>
           else if base c = BSet then Ok \<lparr>proto = Some c, slot = SetSlot [], props = []\<rparr>
           else if base c = BMap then Ok \<lparr>proto = Some c, slot = MapSlot [], props = []\<rparr>
           else if base c = BDate then
             (case slot ob of
                DateSlot t \<Rightarrow> Ok \<lparr>proto = Some c, slot = DateSlot t, props = []\<rparr>
              | _ \<Rightarrow> Throw TypeError)
           else Ok \<lparr>proto = Some c, slot = NoSlot, props = []\<rparr>)"

lemma bind_cong [fundef_cong]:
  "m = m' \<Longrightarrow> (\<And>x. m' = Ok x \<Longrightarrow> f x = f' x) \<Longrightarrow> bind m f = bind m' f'"
  by (cases m') (simp_all add: bind_def)

text \<open>
  \<open>copyObject\<close> (lines 26-90) and its three loops. The loops run over the members,
  entries and own properties of the instance, which the copy never writes to; every
  write goes to the shell at address \<open>c\<close>.
\<close>

function (sequential) copyObject :: "nat \<Rightarrow> val \<Rightarrow> cstate \<Rightarrow> int \<Rightarrow> (val \<times> cstate) res"
  and copyItems :: "nat \<Rightarrow> val list \<Rightarrow> addr \<Rightarrow> cstate \<Rightarrow> int \<Rightarrow> cstate res"
  and copyEntries :: "nat \<Rightarrow> (val \<times> val) list \<Rightarrow> addr \<Rightarrow> cstate \<Rightarrow> int \<Rightarrow> cstate res"
  and copyProps :: "nat \<Rightarrow> (string \<times> val) list \<Rightarrow> addr \<Rightarrow> cstate \<Rightarrow> int \<Rightarrow> cstate res"
where
  "copyObject 0 instance st level = OutOfFuel"
| "copyObject (Suc n) instance st level =
    (case instance of
      Ref a \<Rightarrow>
       bind (lookup (fst st) a) (\<lambda>ob.
       case map_of (snd st) a of
         Some copy \<Rightarrow> Ok (copy, st)
       | None \<Rightarrow>
           if level = 0 then Ok (Ref a, st)
           else
             bind (copy_shell ob) (\<lambda>shell.
               let (c, h1) = alloc shell (fst st);
                   seen1 = AList.update a (Ref c) (snd st)
               in bind
                    (case proto ob of
                       Some k \<Rightarrow>
                         if base k = BSet then
                           (case slot ob of
                              SetSlot xs \<Rightarrow> copyItems n xs c (h1, seen1) level
                            | _ \<Rightarrow> Throw TypeError)
                         else if base k = BMap then
                           (case slot ob of
                              MapSlot es \<Rightarrow> copyEntries n es c (h1, seen1) level
                            | _ \<Rightarrow> Throw TypeError)
                         else if \<not> hasOwnProperty_callable (props ob) then Throw TypeError
                         else copyProps n (props ob) c (h1, seen1) level
                     | None \<Rightarrow> Throw TypeError)
                    (\<lambda>st'. Ok (Ref c, st'))))
     | _ \<Rightarrow> Ok (instance, st))"
| "copyItems n [] c st level = Ok st"
| "copyItems n (item # items) c st level =
     bind (if isObject item then copyObject n item st (next_level level) else Ok (item, st))
       (\<lambda>(v, (h, seen)). bind (set_add c v h) (\<lambda>h'. copyItems n items c (h', seen) level))"
| "copyEntries n [] c st level = Ok st"
| "copyEntries n ((key, v) # es) c st level =
     bind (if isObject key then copyObject n key st (next_level level) else Ok (key, st))
       (\<lambda>(copiedKey, st1).
          bind (if isObject v then copyObject n v st1 (next_level level) else Ok (v, st1))
            (\<lambda>(copiedValue, (h, seen)).
               bind (map_set c copiedKey copiedValue h) (\<lambda>h'. copyEntries n es c (h', seen) level)))"
| "copyProps n [] c st level = Ok st"
| "copyProps n ((key, v) # ps) c st level =
     (if reads_undefined (fst st ! c) key then
        bind (if isObject v then copyObject n v st (next_level level) else Ok (v, st))
          (\<lambda>(v', (h', seen')). copyProps n ps c (set_prop c key v' h', seen') level)
      else copyProps n ps c st level)"
  by pat_completeness auto
termination
  by (relation "inv_image (less_than <*lex*> less_than) (\<lambda>x. case x of
        Inl (Inl (n, _)) \<Rightarrow> (n, 0)
      | Inl (Inr (n, xs, _)) \<Rightarrow> (n, 1 + length xs)
      | Inr (Inl (n, xs, _)) \<Rightarrow> (n, 1 + length xs)
      | Inr (Inr (n, xs, _)) \<Rightarrow> (n, 1 + length xs))") auto


text \<open>\<open>deepCopy(instance, level = -1)\<close> (lines 14-17): a fresh \<open>seen\<close> table.\<close>

definition deepCopy :: "nat \<Rightarrow> heap \<Rightarrow> val \<Rightarrow> int \<Rightarrow> (val \<times> heap) res" where
  "deepCopy n h instance level =
     bind (copyObject n instance (h, []) level) (\<lambda>(v, (h', seen)). Ok (v, h'))"

section \<open>Serializable\<close>

subsection \<open>Encoded trees and the text stage\<close>

text \<open>
  A document of structured-data notation, as \<open>JSON.parse\<close> returns it and
  \<open>JSON.stringify\<close> renders it: the model keeps the tree and leaves the characters
  out. The members of an object are listed in enumeration order, each key once.
\<close>

datatype json = JNull | JBool bool | JNum int | JStr string | JArr "json list"
  | JObj "(string \<times> json) list"

text \<open>
  What \<open>serializeObject\<close> returns before the text stage: a value passed through
  unchanged (a primitive, or a live object of the heap), a fresh \<open>jsonObject\<close>, or a
  fresh array (\<open>values\<close>, \<open>entries\<close> and their pairs).
\<close>

datatype sval = SV val | SObj "(string \<times> sval) list" | SArr "sval list"

text \<open>
  The environment of the serializer: the classes registered in \<open>classMap\<close> beside
  the four built-in ones (by a decorator or \<open>makeSerializable\<close>, which are not part
  of the sources), and the host's \<open>Date\<close> constructor applied to a parsed value
  (\<open>None\<close> as argument is \<open>undefined\<close>, \<open>None\<close> as result an invalid date).
\<close>

record env =
  registered :: "(string \<times> cls) list"
  newDate :: "json option \<Rightarrow> string option"

text \<open>\<open>classMap.get(name)\<close>: a later registration replaces an earlier one (line 27).\<close>

definition classMap :: "env \<Rightarrow> string \<Rightarrow> cls option" where
  "classMap e name =
     (case map_of (registered e) name of
        Some c \<Rightarrow> Some c
      | None \<Rightarrow> map_of [(''Date'', DateC), (''Set'', SetC), (''Map'', MapC), (''Array'', ArrayC)] name)"

text \<open>Decimal rendering of a number, as a template literal prints \<open>seen.size\<close>.\<close>

definition digit :: "nat \<Rightarrow> char" where
  "digit d = char_of (48 + d)"

function dec :: "nat \<Rightarrow> string" where
  "dec n = (if n < 10 then [digit n] else dec (n div 10) @ [digit (n mod 10)])"
  by pat_completeness auto
termination
  by (relation "measure (\<lambda>n. n)") auto

text \<open>
  \<open>getClassName\<close> (lines 227-231): the match of \<open>/^(?:bound\s)?(.+)$/\<close>. The group
  is the text after a leading \<open>bound\<close> and one white-space character when that text
  is not empty and has no line terminator; in every other case the result is the name
  itself (the whole match, or no match at all). A string of the model is a list of
  characters below 256: of the characters that \<open>\s\<close> matches these are the space, the
  five control characters and the no-break space U+00A0, and of the line terminators
  the line feed and the carriage return.
\<close>

definition white_space :: "char \<Rightarrow> bool" where
  "white_space c = (c \<in> set [CHR '' '', CHR 0x09, CHR 0x0A, CHR 0x0B, CHR 0x0C, CHR 0x0D, CHR 0xA0])"

definition line_terminator :: "char \<Rightarrow> bool" where
  "line_terminator c = (c = CHR 0x0A \<or> c = CHR 0x0D)"

definition getClassName :: "string \<Rightarrow> string" where
  "getClassName constructorName =
     (let rest = drop 6 constructorName in
      if take 5 constructorName = ''bound'' \<and> rest \<noteq> [] \<and> white_space (constructorName ! 5)
         \<and> \<not> list_ex line_terminator rest
      then rest else constructorName)"

text \<open>The \<open>seen\<close> table of the serializer: a \<open>Map\<close> from objects to their ids.\<close>

type_synonym seen_ids = "(addr \<times> string) list"

text \<open>
  An array index is the decimal rendering, without leading zeros, of a number below
  4294967295 (two to the power 32, less one).
\<close>

definition is_digit :: "char \<Rightarrow> bool" where
  "is_digit c = ((48::nat) \<le> of_char c \<and> (of_char c :: nat) \<le> 57)"

definition index_of :: "string \<Rightarrow> nat" where
  "index_of k = fold (\<lambda>c n. 10 * n + (of_char c - 48)) k (0::nat)"

definition is_index :: "string \<Rightarrow> bool" where
  "is_index k = (k \<noteq> [] \<and> list_all is_digit k \<and> (k = ''0'' \<or> hd k \<noteq> CHR ''0'')
     \<and> index_of k < 4294967295)"

text \<open>
  The order in which the own string keys of an ordinary object are enumerated (\<open>for ..
  in\<close>, \<open>JSON.stringify\<close>): the array indices in ascending order, then the other
  keys in the order of their creation.
\<close>

definition enumeration :: "(string \<times> 'a) list \<Rightarrow> (string \<times> 'a) list" where
  "enumeration al =
     sort_key (\<lambda>p. index_of (fst p)) (filter (\<lambda>p. is_index (fst p)) al)
     @ filter (\<lambda>p. \<not> is_index (fst p)) al"

text \<open>
  \<open>Object.assign(jsonObject, instance)\<close> (line 74): every own property of the instance
  is written to \<open>jsonObject\<close>, which the loop of line 75 then enumerates.
\<close>

definition assign :: "(string \<times> sval) list \<Rightarrow> (string \<times> val) list \<Rightarrow> (string \<times> sval) list" where
  "assign jo ps = enumeration (fold (\<lambda>(k, v) acc. AList.update k (SV v) acc) ps jo)"

text \<open>
  \<open>serializeObject\<close> (lines 45-92) with its loops: the members of a set, the entries
  of a map, and the keys of \<open>jsonObject\<close> (line 75), of which those that are own
  properties of the instance are replaced by their serialization.
\<close>

function (sequential) serializeObject :: "nat \<Rightarrow> env \<Rightarrow> heap \<Rightarrow> val \<Rightarrow> seen_ids \<Rightarrow> (sval \<times> seen_ids) res"
  and serItems :: "nat \<Rightarrow> env \<Rightarrow> heap \<Rightarrow> val list \<Rightarrow> seen_ids \<Rightarrow> (sval list \<times> seen_ids) res"
  and serEntries :: "nat \<Rightarrow> env \<Rightarrow> heap \<Rightarrow> (val \<times> val) list \<Rightarrow> seen_ids \<Rightarrow> (sval list \<times> seen_ids) res"
  and serProps :: "nat \<Rightarrow> env \<Rightarrow> heap \<Rightarrow> string list \<Rightarrow> (string \<times> val) list \<Rightarrow> (string \<times> sval) list
     \<Rightarrow> seen_ids \<Rightarrow> ((string \<times> sval) list \<times> seen_ids) res"
where
  "serializeObject 0 e h instance seen = OutOfFuel"
| "serializeObject (Suc n) e h instance seen =
     (case instance of
        Ref a \<Rightarrow>
          bind (lookup h a) (\<lambda>ob.
            case map_of seen a of
              Some ident \<Rightarrow> Ok (SObj [(''__ref'', SV (Str ident))], seen)
            | None \<Rightarrow>
                bind (constructor_of ob) (\<lambda>ctor.
                  case ctor of
                    None \<Rightarrow> Throw TypeError
                  | Some k \<Rightarrow>
                      let className = getClassName (cname k);
                          ident = className @ ''_'' @ dec (length seen);
                          seen1 = AList.update a ident seen
                      in case classMap e className of
                           None \<Rightarrow> Ok (SV (Ref a), seen1)
                         | Some classConstructor \<Rightarrow>
                             let jo = [(''__class'', SV (Str className)), (''__id'', SV (Str ident))]
                             in bind
                                  (if base k = BSet then
                                     (case slot ob of
                                        SetSlot xs \<Rightarrow>
                                          bind (serItems n e h xs seen1) (\<lambda>(vs, seen2).
                                            Ok (jo @ [(''values'', SArr vs), (''__set'', SV (Bool True))], seen2))
                                      | _ \<Rightarrow> Throw TypeError)
                                   else if base k = BMap then
                                     (case slot ob of
                                        MapSlot es \<Rightarrow>
                                          bind (serEntries n e h es seen1) (\<lambda>(vs, seen2).
                                            Ok (jo @ [(''entries'', SArr vs), (''__map'', SV (Bool True))], seen2))
                                      | _ \<Rightarrow> Throw TypeError)
                                   else if base k = BDate then
                                     (case slot ob of
                                        DateSlot (Some t) \<Rightarrow>
                                          Ok (jo @ [(''__date'', SV (Bool True)), (''date'', SV (Str t))], seen1)
                                      | DateSlot None \<Rightarrow> Throw RangeError
                                      | _ \<Rightarrow> Throw TypeError)
                                   else if \<not> hasOwnProperty_callable (props ob) then Throw TypeError
                                   else serProps n e h (map fst (assign jo (props ob))) (props ob)
                                          (assign jo (props ob)) seen1)
                                  (\<lambda>(jo', seen').
                                     Ok (SObj (if marked k
                                               then AList.update ''SERIALIZED_CLASS'' (SV (Bool True)) jo'
                                               else jo'), seen'))))
      | _ \<Rightarrow> Ok (SV instance, seen))"
| "serItems n e h [] seen = Ok ([], seen)"
| "serItems n e h (item # items) seen =
     bind (if isObject item then serializeObject n e h item seen else Ok (SV item, seen))
       (\<lambda>(v, seen1). bind (serItems n e h items seen1) (\<lambda>(vs, seen2). Ok (v # vs, seen2)))"
| "serEntries n e h [] seen = Ok ([], seen)"
| "serEntries n e h ((key, v) # es) seen =
     bind (if isObject key then serializeObject n e h key seen else Ok (SV key, seen))
       (\<lambda>(k', seen1).
          bind (if isObject v then serializeObject n e h v seen1 else Ok (SV v, seen1))
            (\<lambda>(v', seen2).
               bind (serEntries n e h es seen2) (\<lambda>(vs, seen3). Ok (SArr [k', v'] # vs, seen3))))"
| "serProps n e h [] ps jo seen = Ok (jo, seen)"
| "serProps n e h (key # keys) ps jo seen =
     (case map_of ps key of
        Some v \<Rightarrow>
          bind (if isObject v then serializeObject n e h v seen else Ok (SV v, seen))
            (\<lambda>(v', seen1). serProps n e h keys ps (AList.update key v' jo) seen1)
      | None \<Rightarrow> serProps n e h keys ps jo seen)"
  by pat_completeness auto
termination
  by (relation "inv_image (less_than <*lex*> less_than) (\<lambda>x. case x of
        Inl (Inl (n, _)) \<Rightarrow> (n, 0)
      | Inl (Inr (n, _, _, xs, _)) \<Rightarrow> (n, 1 + length xs)
      | Inr (Inl (n, _, _, xs, _)) \<Rightarrow> (n, 1 + length xs)
      | Inr (Inr (n, _, _, xs, _)) \<Rightarrow> (n, 1 + length xs))") auto

text \<open>
  \<open>JSON.stringify\<close> on the result of \<open>serializeObject\<close>. A live object that was
  passed through is rendered from the heap: a date by \<open>Date.prototype.toJSON\<close>, an
  array by its elements up to its length, any other object by its own properties;
  an object met again below itself is a circular structure (TypeError). A property
  that is \<open>undefined\<close> is left out, an element that is \<open>undefined\<close> is \<open>null\<close>,
  and \<open>None\<close> is the result \<open>undefined\<close>.
\<close>

text \<open>The length of an array: one more than its greatest index (no trailing holes).\<close>

definition array_length :: "(string \<times> val) list \<Rightarrow> nat" where
  "array_length ps = fold (\<lambda>(k, v) m. if is_index k then max m (Suc (index_of k)) else m) ps 0"

definition array_elems :: "(string \<times> val) list \<Rightarrow> sval list" where
  "array_elems ps =
     map (\<lambda>i. case map_of ps (dec i) of Some v \<Rightarrow> SV v | None \<Rightarrow> SV Undefined) [0..<array_length ps]"

definition inherits_toJSON :: "obj \<Rightarrow> bool" where
  "inherits_toJSON ob =
     (map_of (props ob) ''toJSON'' = None \<and>
      (case proto ob of Some c \<Rightarrow> ''toJSON'' \<in> set (pdefined c) | None \<Rightarrow> False))"

function (sequential) stringify :: "nat \<Rightarrow> heap \<Rightarrow> addr list \<Rightarrow> sval \<Rightarrow> json option res"
  and stringifyProps :: "nat \<Rightarrow> heap \<Rightarrow> addr list \<Rightarrow> (string \<times> sval) list \<Rightarrow> (string \<times> json) list res"
  and stringifyElems :: "nat \<Rightarrow> heap \<Rightarrow> addr list \<Rightarrow> sval list \<Rightarrow> json list res"
where
  "stringify 0 h stack sv = OutOfFuel"
| "stringify (Suc n) h stack sv =
     (case sv of
        SV Undefined \<Rightarrow> Ok None
      | SV Null \<Rightarrow> Ok (Some JNull)
      | SV (Bool b) \<Rightarrow> Ok (Some (JBool b))
      | SV (Num i) \<Rightarrow> Ok (Some (JNum i))
      | SV (Str s) \<Rightarrow> Ok (Some (JStr s))
      | SV (Ref a) \<Rightarrow>
          bind (lookup h a) (\<lambda>ob.
            if inherits_toJSON ob then
              (if map_option base (proto ob) = Some BDate then
                 (case slot ob of
                    DateSlot (Some t) \<Rightarrow> Ok (Some (JStr t))
                  | DateSlot None \<Rightarrow> Ok (Some JNull)
                  | _ \<Rightarrow> Throw TypeError)
               else Throw Unmodelled)
            else if a \<in> set stack then Throw TypeError
            else if slot ob = ArraySlot then
              bind (stringifyElems n h (a # stack) (array_elems (props ob))) (\<lambda>js. Ok (Some (JArr js)))
            else
              bind (stringifyProps n h (a # stack) (map (\<lambda>(k, v). (k, SV v)) (props ob)))
                (\<lambda>ms. Ok (Some (JObj ms))))
      | SObj ps \<Rightarrow> bind (stringifyProps n h stack ps) (\<lambda>ms. Ok (Some (JObj ms)))
      | SArr xs \<Rightarrow> bind (stringifyElems n h stack xs) (\<lambda>js. Ok (Some (JArr js))))"
| "stringifyProps n h stack [] = Ok []"
| "stringifyProps n h stack ((k, v) # ps) =
     bind (stringify n h stack v) (\<lambda>r.
       bind (stringifyProps n h stack ps) (\<lambda>ms.
         Ok (case r of None \<Rightarrow> ms | Some j \<Rightarrow> (k, j) # ms)))"
| "stringifyElems n h stack [] = Ok []"
| "stringifyElems n h stack (v # vs) =
     bind (stringify n h stack v) (\<lambda>r.
       bind (stringifyElems n h stack vs) (\<lambda>js.
         Ok ((case r of None \<Rightarrow> JNull | Some j \<Rightarrow> j) # js)))"
  by pat_completeness auto
termination
  by (relation "inv_image (less_than <*lex*> less_than) (\<lambda>x. case x of
        Inl (n, _) \<Rightarrow> (n, 0)
      | Inr (Inl (n, _, _, xs)) \<Rightarrow> (n, 1 + length xs)
      | Inr (Inr (n, _, _, xs)) \<Rightarrow> (n, 1 + length xs))") auto

text \<open>
  \<open>serialize\<close> (lines 39-43): a fresh \<open>seen\<close> table, then the text stage. The
  result \<open>None\<close> is \<open>undefined\<close>, which \<open>JSON.stringify\<close> returns in place of a
  text when the value is \<open>undefined\<close>.
\<close>

definition serialize :: "nat \<Rightarrow> env \<Rightarrow> heap \<Rightarrow> val \<Rightarrow> json option res" where
  "serialize n e h instance =
     bind (serializeObject n e h instance []) (\<lambda>(serializedObject, seen). stringify n h [] serializedObject)"

subsection \<open>Deserialization\<close>

text \<open>
  The \<open>references\<close> table: a \<open>Map\<close> whose keys are whatever \<open>__id\<close> held. A key
  that is itself an object or array of the parsed document is never found again (every
  node of the document is a different object), so it is not recorded; \<open>None\<close> is the
  key \<open>undefined\<close> of a node without \<open>__id\<close>.
\<close>

type_synonym refs = "(json option \<times> val) list"

type_synonym dstate = "heap \<times> refs"

fun composite :: "json \<Rightarrow> bool" where
  "composite (JArr xs) = True"
| "composite (JObj ms) = True"
| "composite j = False"

fun prim_val :: "json \<Rightarrow> val" where
  "prim_val JNull = Null"
| "prim_val (JBool b) = Bool b"
| "prim_val (JNum i) = Num i"
| "prim_val (JStr s) = Str s"
| "prim_val j = Undefined"

fun truthy :: "json option \<Rightarrow> bool" where
  "truthy None = False"
| "truthy (Some JNull) = False"
| "truthy (Some (JBool b)) = b"
| "truthy (Some (JNum i)) = (i \<noteq> 0)"
| "truthy (Some (JStr s)) = (s \<noteq> [])"
| "truthy (Some j) = True"

definition is_key :: "json option \<Rightarrow> bool" where
  "is_key k = (case k of Some j \<Rightarrow> \<not> composite j | None \<Rightarrow> True)"

definition refs_get :: "refs \<Rightarrow> json option \<Rightarrow> val" where
  "refs_get r k = (if is_key k then (case map_of r k of Some v \<Rightarrow> v | None \<Rightarrow> Undefined) else Undefined)"

definition refs_set :: "json option \<Rightarrow> val \<Rightarrow> refs \<Rightarrow> refs" where
  "refs_set k v r = (if is_key k then AList.update k v r else r)"

text \<open>\<open>jsonObject.name\<close>: an own member of a parsed object; a parsed array has none of the names read.\<close>

fun field :: "json \<Rightarrow> string \<Rightarrow> json option" where
  "field (JObj ms) name = map_of ms name"
| "field j name = None"

text \<open>The keys \<open>for .. in\<close> enumerates on a parsed node, with their values.\<close>

fun own_props :: "json \<Rightarrow> (string \<times> json) list" where
  "own_props (JObj ms) = ms"
| "own_props (JArr xs) = zip (map dec [0..<length xs]) xs"
| "own_props j = []"

text \<open>\<open>for (const x of v)\<close>: an array yields its elements and a string its characters; nothing else iterates.\<close>

fun iterate :: "json option \<Rightarrow> json list res" where
  "iterate (Some (JArr xs)) = Ok xs"
| "iterate (Some (JStr s)) = Ok (map (\<lambda>c. JStr [c]) s)"
| "iterate j = Throw TypeError"

text \<open>\<open>const [key, value] = entry\<close>: missing positions are \<open>undefined\<close>.\<close>

definition destructure :: "json \<Rightarrow> (json option \<times> json option) res" where
  "destructure entry =
     bind (iterate (Some entry)) (\<lambda>xs.
       Ok (if 0 < length xs then Some (xs ! 0) else None, if 1 < length xs then Some (xs ! 1) else None))"

text \<open>The shell of a registered class (lines 120-132).\<close>

definition decode_shell :: "env \<Rightarrow> cls \<Rightarrow> json \<Rightarrow> obj res" where
  "decode_shell e c jsonObject =
     (if base c = BArray then Ok \<lparr>proto = Some c, slot = ArraySlot, props = []\<rparr>
      else if truthy (field jsonObject ''__set'') then Ok \<lparr>proto = Some c, slot = SetSlot [], props = []\<rparr>
      else if truthy (field jsonObject ''__map'') then Ok \<lparr>proto = Some c, slot = MapSlot [], props = []\<rparr>
      else if truthy (field jsonObject ''__date'') then
        (if is_key (field jsonObject ''date'')
         then Ok \<lparr>proto = Some c, slot = DateSlot (newDate e (field jsonObject ''date'')), props = []\<rparr>
         else Throw Unmodelled)
      else Ok \<lparr>proto = Some c, slot = NoSlot, props = []\<rparr>)"

text \<open>\<open>classMap.get(jsonObject.__class)\<close>: only a string is a key of the registry.\<close>

definition class_of :: "env \<Rightarrow> json \<Rightarrow> cls option" where
  "class_of e jsonObject = (case field jsonObject ''__class'' of Some (JStr s) \<Rightarrow> classMap e s | _ \<Rightarrow> None)"

text \<open>
  \<open>deserializeObject\<close> (lines 108-177) and its loops over \<open>values\<close>, \<open>entries\<close>
  and the keys of the node. \<open>guarded\<close> is the test of line 150, which the loop of an
  unregistered node (line 166) does not make.
\<close>

function (sequential) deserializeObject :: "nat \<Rightarrow> env \<Rightarrow> json \<Rightarrow> dstate \<Rightarrow> (val \<times> dstate) res"
  and desItems :: "nat \<Rightarrow> env \<Rightarrow> json list \<Rightarrow> addr \<Rightarrow> dstate \<Rightarrow> dstate res"
  and desEntries :: "nat \<Rightarrow> env \<Rightarrow> json list \<Rightarrow> addr \<Rightarrow> dstate \<Rightarrow> dstate res"
  and desProps :: "nat \<Rightarrow> env \<Rightarrow> bool \<Rightarrow> (string \<times> json) list \<Rightarrow> addr \<Rightarrow> dstate \<Rightarrow> dstate res"
  and desChild :: "nat \<Rightarrow> env \<Rightarrow> json option \<Rightarrow> dstate \<Rightarrow> (val \<times> dstate) res"
where
  "deserializeObject 0 e jsonObject st = OutOfFuel"
| "deserializeObject (Suc n) e jsonObject st =
     (if composite jsonObject then
        if truthy (field jsonObject ''__ref'') then Ok (refs_get (snd st) (field jsonObject ''__ref''), st)
        else
          (case class_of e jsonObject of
             Some classConstructor \<Rightarrow>
               bind (decode_shell e classConstructor jsonObject) (\<lambda>shell.
                 let (a, h1) = alloc shell (fst st);
                     refs1 = refs_set (field jsonObject ''__id'') (Ref a) (snd st)
                 in bind
                      (if base classConstructor = BSet then
                         bind (iterate (field jsonObject ''values'')) (\<lambda>vs. desItems n e vs a (h1, refs1))
                       else if base classConstructor = BMap then
                         bind (iterate (field jsonObject ''entries'')) (\<lambda>es. desEntries n e es a (h1, refs1))
                       else if \<not> hasOwnProperty_callable (own_props jsonObject) then Throw TypeError
                       else desProps n e True (own_props jsonObject) a (h1, refs1))
                      (\<lambda>st'. Ok (Ref a, st')))
           | None \<Rightarrow>
               let (a, h1) = alloc \<lparr>proto = Some ObjectC, slot = NoSlot, props = []\<rparr> (fst st);
                   refs1 = refs_set (field jsonObject ''__id'') (Ref a) (snd st)
               in bind
                    (if \<not> hasOwnProperty_callable (own_props jsonObject) then Throw TypeError
                     else desProps n e False (own_props jsonObject) a (h1, refs1))
                    (\<lambda>st'. Ok (Ref a, st')))
      else Ok (prim_val jsonObject, st))"
| "desItems n e [] a st = Ok st"
| "desItems n e (v # vs) a st =
     bind (desChild n e (Some v) st) (\<lambda>(v', (h, r)).
       bind (set_add a v' h) (\<lambda>h'. desItems n e vs a (h', r)))"
| "desEntries n e [] a st = Ok st"
| "desEntries n e (entry # es) a st =
     bind (destructure entry) (\<lambda>(key, v).
       bind (desChild n e key st) (\<lambda>(key', st1).
         bind (desChild n e v st1) (\<lambda>(v', (h, r)).
           bind (map_set a key' v' h) (\<lambda>h'. desEntries n e es a (h', r)))))"
| "desProps n e guarded [] a st = Ok st"
| "desProps n e guarded ((key, v) # ps) a st =
     (if key \<noteq> ''__class'' \<and> key \<noteq> ''__id'' \<and> (if guarded then reads_undefined (fst st ! a) key else True) then
        bind (desChild n e (Some v) st) (\<lambda>(v', (h, r)).
          if key = ''__proto__'' then Throw Unmodelled
          else desProps n e guarded ps a (set_prop a key v' h, r))
      else desProps n e guarded ps a st)"
| "desChild n e None st = Ok (Undefined, st)"
| "desChild n e (Some j) st = (if composite j then deserializeObject n e j st else Ok (prim_val j, st))"
  by pat_completeness auto
termination
  by (relation "inv_image (less_than <*lex*> less_than) (\<lambda>x. case x of
        Inl (Inl (n, _)) \<Rightarrow> (n, 0)
      | Inl (Inr (n, _, xs, _)) \<Rightarrow> (n, 2 + length xs)
      | Inr (Inl (n, _, xs, _)) \<Rightarrow> (n, 2 + length xs)
      | Inr (Inr (Inl (n, _, _, xs, _))) \<Rightarrow> (n, 2 + length xs)
      | Inr (Inr (Inr (n, _))) \<Rightarrow> (n, 1))") auto

text \<open>\<open>deserialize\<close> (lines 102-106) on the parsed text: a fresh \<open>references\<close> table.\<close>

definition deserialize :: "nat \<Rightarrow> env \<Rightarrow> heap \<Rightarrow> json \<Rightarrow> (val \<times> heap) res" where
  "deserialize n e h jsonObject =
     bind (deserializeObject n e jsonObject (h, [])) (\<lambda>(v, (h', references)). Ok (v, h'))"

text \<open>
  \<open>deserialize(serialize(v))\<close>: \<open>JSON.parse\<close> of the text \<open>undefined\<close> is a
  SyntaxError.
\<close>

definition roundtrip :: "nat \<Rightarrow> env \<Rightarrow> heap \<Rightarrow> val \<Rightarrow> (val \<times> heap) res" where
  "roundtrip n e h v =
     bind (serialize n e h v) (\<lambda>txt.
       case txt of None \<Rightarrow> Throw SyntaxError | Some j \<Rightarrow> deserialize n e h j)"




section \<open>Vocabulary of the properties\<close>

text \<open>
  The invariant of the \<open>seen\<close> table of one \<open>serialize\<close> traversal: every object
  has one entry, and the entry at position \<open>i\<close> (the size of the table when it was
  made) holds an id that ends in \<open>_\<close> and the decimal digits of \<open>i\<close>.
\<close>

definition seen_inv :: "seen_ids \<Rightarrow> bool" where
  "seen_inv seen = (distinct (map fst seen) \<and>
     (\<forall>i < length seen. \<exists>c. snd (seen ! i) = c @ ''_'' @ dec i))"

text \<open>A later table of the same traversal: the earlier entries stay, the invariant is kept.\<close>

definition grows :: "seen_ids \<Rightarrow> seen_ids \<Rightarrow> bool" where
  "grows seen seen' = (prefix seen seen' \<and> (seen_inv seen \<longrightarrow> seen_inv seen'))"

text \<open>The rendering of primitive property values by the text stage.\<close>

fun prim_json :: "val \<Rightarrow> json option" where
  "prim_json Null = Some JNull"
| "prim_json (Bool b) = Some (JBool b)"
| "prim_json (Num i) = Some (JNum i)"
| "prim_json (Str s) = Some (JStr s)"
| "prim_json v = None"

text \<open>The ids of the nodes of a document: every value a member \<open>__id\<close> holds.\<close>

primrec node_ids :: "json \<Rightarrow> json list" where
  "node_ids JNull = []"
| "node_ids (JBool b) = []"
| "node_ids (JNum i) = []"
| "node_ids (JStr s) = []"
| "node_ids (JArr xs) = concat (map node_ids xs)"
| "node_ids (JObj ms) =
     (case map_of ms ''__id'' of Some i \<Rightarrow> [i] | None \<Rightarrow> [])
     @ concat (map snd (map (map_prod id node_ids) ms))"

section \<open>Examples\<close>

text \<open>
  A host for the closed examples: nothing is registered beside the built-in classes, and
  the \<open>Date\<close> constructor takes the ISO text of a date as it stands and makes an
  invalid date of anything else.
\<close>

definition host0 :: env where
  "host0 = \<lparr>registered = [], newDate = (\<lambda>j. case j of Some (JStr s) \<Rightarrow> Some s | _ \<Rightarrow> None)\<rparr>"

text \<open>A plain record \<open>{x: 1}\<close>, and an object without prototype, \<open>Object.create(null)\<close> with \<open>x = 1\<close>.\<close>

definition plain_record :: obj where
  "plain_record = \<lparr>proto = Some ObjectC, slot = NoSlot, props = [(''x'', Num 1)]\<rparr>"

definition bare_object :: obj where
  "bare_object = \<lparr>proto = None, slot = NoSlot, props = [(''x'', Num 1)]\<rparr>"

text \<open>The map of the cycle scenario, at address \<open>a\<close>: \<open>m.set("self", m)\<close>.\<close>

definition self_map :: "addr \<Rightarrow> obj" where
  "self_map a = \<lparr>proto = Some MapC, slot = MapSlot [(Str ''self'', Ref a)], props = []\<rparr>"

text \<open>A plain record with the properties \<open>ps\<close>.\<close>

definition record_of :: "(string \<times> val) list \<Rightarrow> obj" where
  "record_of ps = \<lparr>proto = Some ObjectC, slot = NoSlot, props = ps\<rparr>"

text \<open>An array that holds the same object at its indices 0 and 1.\<close>

definition pair_array :: "addr \<Rightarrow> obj" where
  "pair_array b = \<lparr>proto = Some ArrayC, slot = ArraySlot, props = [(''0'', Ref b), (''1'', Ref b)]\<rparr>"

text \<open>The plain record \<open>{x: new Set([1])}\<close>.\<close>

definition set_in_record :: heap where
  "set_in_record = [\<lparr>proto = Some ObjectC, slot = NoSlot, props = [(''x'', Ref 1)]\<rparr>,
                    \<lparr>proto = Some SetC, slot = SetSlot [Num 1], props = []\<rparr>]"

text \<open>
  An array that holds twice a plain record whose own property \<open>__id\<close> is the id the
  serializer gives that record.
\<close>

definition carries_id :: heap where
  "carries_id = [pair_array 1, record_of [(''__id'', Str ''Object_1'')]]"

text \<open>The heap after a loop that writes to the object at \<open>a\<close> only.\<close>

definition same_but :: "addr \<Rightarrow> heap \<Rightarrow> heap \<Rightarrow> bool" where
  "same_but a h h' = (length h \<le> length h' \<and> (\<forall>x < length h. x \<noteq> a \<longrightarrow> h' ! x = h ! x))"

text \<open>A node of an unknown kind with a member named \<open>hasOwnProperty\<close>.\<close>

definition shadowing_node :: json where
  "shadowing_node = JObj [(''__class'', JStr ''Foo''), (''hasOwnProperty'', JNum 1)]"

text \<open>A node of the unknown kind \<open>Foo\<close> with one primitive member.\<close>

definition tagged_node :: json where
  "tagged_node = JObj [(''__class'', JStr ''Foo''), (''__id'', JStr ''Foo_0''), (''x'', JNum 1)]"

subsection \<open>Copies\<close>

text \<open>The copy of a value under a \<open>seen\<close> table: the copy recorded for an object, the value itself otherwise.\<close>

definition image_of :: "seen_copy \<Rightarrow> val \<Rightarrow> val" where
  "image_of seen v =
     (case v of Ref a \<Rightarrow> (case map_of seen a of Some w \<Rightarrow> w | None \<Rightarrow> v) | _ \<Rightarrow> v)"









text \<open>
  The state of a copy of the heap \<open>h\<close>: the heap has grown by one object for each
  entry of the table, and entry \<open>i\<close> maps an object of \<open>S\<close> to the \<open>i\<close>-th new
  object.
\<close>

definition cinv :: "heap \<Rightarrow> addr set \<Rightarrow> heap \<Rightarrow> seen_copy \<Rightarrow> bool" where
  "cinv h S h1 seen =
     (prefix h h1 \<and> length h1 = length h + length seen \<and> distinct (map fst seen) \<and>
      (\<forall>i < length seen. fst (seen ! i) \<in> S \<and> snd (seen ! i) = Ref (length h + i)))"


definition known :: "seen_copy \<Rightarrow> val \<Rightarrow> bool" where
  "known seen v = (case v of Ref b \<Rightarrow> b \<in> fst ` set seen | _ \<Rightarrow> True)"







section \<open>Basic facts\<close>

lemma bind_simps [simp]:
  "bind (Ok x) f = f x"
  "bind (Throw err) f = Throw err"
  "bind OutOfFuel f = OutOfFuel"
  by (simp_all add: bind_def)

lemma bind_Ok_iff: "bind m f = Ok y \<longleftrightarrow> (\<exists>x. m = Ok x \<and> f x = Ok y)"
  by (cases m) simp_all

lemma lookup_in [simp]: "a < length h \<Longrightarrow> lookup h a = Ok (h ! a)"
  by (simp add: lookup_def)

lemma update_absent: "map_of al k = None \<Longrightarrow> AList.update k v al = al @ [(k, v)]"
  by (induction al) (auto split: if_splits)

lemma dec_0 [simp]: "dec 0 = ''0''"
  by code_simp

lemma dec_1 [simp]: "dec (Suc 0) = ''1''"
  by code_simp

declare dec.simps [simp del]


lemma fuel6: "6 + k = Suc (Suc (Suc (Suc (Suc (Suc k)))))"
  by simp

lemma base_builtin [simp]:
  "base ObjectC = BObject" "base ArrayC = BArray" "base SetC = BSet" "base MapC = BMap"
  "base DateC = BDate"
  by (simp_all add: ObjectC_def ArrayC_def SetC_def MapC_def DateC_def)

lemma classMap_Object [simp]:
  "map_of (registered e) ''Object'' = None \<Longrightarrow> classMap e ''Object'' = None"
  by (simp add: classMap_def)

lemma classMap_Array [simp]:
  "map_of (registered e) ''Array'' = None \<Longrightarrow> classMap e ''Array'' = Some ArrayC"
  by (simp add: classMap_def)

lemma getClassName_builtin [simp]:
  "getClassName ''Object'' = ''Object''" "getClassName ''Array'' = ''Array''"
  "getClassName ''Set'' = ''Set''" "getClassName ''Map'' = ''Map''"
  "getClassName ''Date'' = ''Date''"
  by (simp_all add: getClassName_def)

section \<open>Depth-0 copy\<close>

text \<open>
  C3, as the specification states it: \<open>copy(v, 0)\<close> returns a new top-level shell, not
  \<open>v\<close> itself. On the plain record \<open>{x: 1}\<close> at address 0 the code returns the
  reference 0 it was given and allocates nothing (line 33).
\<close>

theorem copy_level0_counterexample:
  "deepCopy (Suc 0) [plain_record] (Ref 0) 0 = Ok (Ref 0, [plain_record])"
  by (simp add: deepCopy_def)

text \<open>
  C3, amended: for every composite value \<open>v\<close>, \<open>copy(v, 0)\<close> returns \<open>v\<close> itself
  (the same reference) and leaves the heap as it was: no shell is allocated.
\<close>

theorem copy_level0_returns_instance:
  "a < length h \<Longrightarrow> deepCopy (Suc n) h (Ref a) 0 = Ok (Ref a, h)"
  by (simp add: deepCopy_def)

theorem copy_level0_returns_instance_witness:
  "deepCopy (Suc 0) [bare_object, plain_record] (Ref 1) 0 = Ok (Ref 1, [bare_object, plain_record])"
  using copy_level0_returns_instance [of 1 "[bare_object, plain_record]" 0] by simp

section \<open>Objects without prototype\<close>

text \<open>
  C10: an object whose prototype is null has no \<open>constructor\<close>; \<open>serialize\<close> throws
  a TypeError reading \<open>instance.constructor.name\<close> (line 51) and \<open>deepCopy\<close>, at its
  default level, reading \<open>instance.constructor.prototype\<close> (line 46). Neither returns
  a text or a copy.
\<close>

theorem null_prototype_throws:
  assumes "a < length h" and "proto (h ! a) = None"
    and "''constructor'' \<notin> fst ` set (props (h ! a))"
    and "''__proto__'' \<notin> fst ` set (props (h ! a))"
  shows "serialize (Suc n) e h (Ref a) = Throw TypeError
       \<and> deepCopy (Suc n) h (Ref a) (-1) = Throw TypeError"
  using assms by (simp add: serialize_def deepCopy_def constructor_of_def copy_shell_def)

theorem null_prototype_throws_witness:
  "serialize (Suc 0) host0 [bare_object] (Ref 0) = Throw TypeError
 \<and> deepCopy (Suc 0) [bare_object] (Ref 0) (-1) = Throw TypeError"
  using null_prototype_throws [of 0 "[bare_object]" 0 host0] by (simp add: bare_object_def)

section \<open>Unresolved back-references\<close>

text \<open>
  C2, as the specification states it: a back-reference whose id is not in the
  \<open>references\<close> table makes \<open>deserialize\<close> fail. On the text
  \<open>{"__ref":"Foo_7"}\<close> the code returns \<open>undefined\<close> (line 111).
\<close>

theorem dangling_reference_counterexample:
  "deserialize (Suc 0) host0 [] (JObj [(''__ref'', JStr ''Foo_7'')]) = Ok (Undefined, [])"
  by (simp add: deserialize_def refs_get_def is_key_def)

text \<open>
  C2, amended: for every back-reference node whose id has not been recorded in the
  \<open>references\<close> table of the traversal, \<open>deserializeObject\<close> returns
  \<open>undefined\<close> and changes nothing; no error is raised.
\<close>

theorem dangling_reference_is_undefined:
  assumes "composite j" and "truthy (field j ''__ref'')"
    and "map_of r (field j ''__ref'') = None"
  shows "deserializeObject (Suc n) e j (h, r) = Ok (Undefined, (h, r))"
  using assms by (simp add: refs_get_def)

theorem dangling_reference_is_undefined_witness:
  "deserializeObject (Suc 0) host0 (JObj [(''__ref'', JStr ''Foo_7'')])
     ([plain_record], [(Some (JStr ''Foo_1''), Ref 0)]) =
   Ok (Undefined, ([plain_record], [(Some (JStr ''Foo_1''), Ref 0)]))"
  using dangling_reference_is_undefined
    [of "JObj [(''__ref'', JStr ''Foo_7'')]" "[(Some (JStr ''Foo_1''), Ref 0)]" 0 host0 "[plain_record]"]
  by simp

section \<open>The self-referential map\<close>

text \<open>
  C4: for a map that holds itself under the key \<open>self\<close>, \<open>serialize\<close>,
  \<open>deserialize\<close> after \<open>serialize\<close> and the unlimited \<open>deepCopy\<close> return (six
  levels of recursion are enough, and more change nothing). The text has the node
  \<open>Map_0\<close> once and one back-reference to it; the decoder and the copier each
  allocate one new map, whose entry \<open>self\<close> is that new map.
\<close>

theorem self_map_terminates:
  assumes "a < length h" and "h ! a = self_map a" and "map_of (registered e) ''Map'' = None"
  shows "serialize (6 + k) e h (Ref a) =
           Ok (Some (JObj [(''__class'', JStr ''Map''), (''__id'', JStr ''Map_0''),
                 (''entries'', JArr [JArr [JStr ''self'', JObj [(''__ref'', JStr ''Map_0'')]]]),
                 (''__map'', JBool True)]))
       \<and> roundtrip (6 + k) e h (Ref a) = Ok (Ref (length h), h @ [self_map (length h)])
       \<and> deepCopy (6 + k) h (Ref a) (-1) = Ok (Ref (length h), h @ [self_map (length h)])"
proof (intro conjI)
  show "serialize (6 + k) e h (Ref a) =
           Ok (Some (JObj [(''__class'', JStr ''Map''), (''__id'', JStr ''Map_0''),
                 (''entries'', JArr [JArr [JStr ''self'', JObj [(''__ref'', JStr ''Map_0'')]]]),
                 (''__map'', JBool True)]))"
    using assms unfolding fuel6 self_map_def
    by (simp add: serialize_def constructor_of_def MapC_def getClassName_def classMap_def Let_def)
  show "roundtrip (6 + k) e h (Ref a) = Ok (Ref (length h), h @ [self_map (length h)])"
    using assms unfolding fuel6 self_map_def
    by (simp add: roundtrip_def deserialize_def serialize_def constructor_of_def MapC_def
        getClassName_def classMap_def Let_def class_of_def decode_shell_def alloc_def
        refs_set_def refs_get_def is_key_def destructure_def map_set_def)
  show "deepCopy (6 + k) h (Ref a) (-1) = Ok (Ref (length h), h @ [self_map (length h)])"
    using assms unfolding fuel6 self_map_def
    by (simp add: deepCopy_def copy_shell_def constructor_of_def MapC_def Let_def alloc_def
        map_set_def next_level_def)
qed

theorem self_map_terminates_witness:
  "serialize 6 host0 [self_map 0] (Ref 0) =
           Ok (Some (JObj [(''__class'', JStr ''Map''), (''__id'', JStr ''Map_0''),
                 (''entries'', JArr [JArr [JStr ''self'', JObj [(''__ref'', JStr ''Map_0'')]]]),
                 (''__map'', JBool True)]))
       \<and> roundtrip 6 host0 [self_map 0] (Ref 0) = Ok (Ref 1, [self_map 0, self_map 1])
       \<and> deepCopy 6 [self_map 0] (Ref 0) (-1) = Ok (Ref 1, [self_map 0, self_map 1])"
  using self_map_terminates [of 0 "[self_map 0]" host0 0] by (simp add: host0_def)

section \<open>The ids of one traversal\<close>

subsection \<open>Decimal rendering is injective\<close>

lemma of_char_digit: "d < 10 \<Longrightarrow> of_char (digit d) = 48 + d"
  by (simp add: digit_def)

lemma index_of_dec: "index_of (dec n) = n"
proof (induction n rule: dec.induct)
  case (1 n)
  show ?case
  proof (cases "n < 10")
    case True
    then show ?thesis by (simp add: dec.simps [of n] index_of_def of_char_digit)
  next
    case False
    with 1 have "index_of (dec (n div 10)) = n div 10" by simp
    with False show ?thesis
      by (simp add: dec.simps [of n] index_of_def of_char_digit)
  qed
qed

lemma dec_digits: "c \<in> set (dec n) \<Longrightarrow> is_digit c"
proof (induction n rule: dec.induct)
  case (1 n)
  then show ?case
    by (cases "n < 10") (auto simp: dec.simps [of n] is_digit_def of_char_digit)
qed

lemma ident_suffix_inj:
  assumes "c1 @ ''_'' @ dec i = c2 @ ''_'' @ dec j"
  shows "i = j"
proof -
  have nd: "\<not> is_digit CHR ''_''" by (simp add: is_digit_def)
  have tw: "takeWhile is_digit (rev (c @ ''_'' @ dec k)) = rev (dec k)" for c k
  proof -
    have "takeWhile is_digit (rev (dec k) @ (CHR ''_'' # rev c))
        = rev (dec k) @ takeWhile is_digit (CHR ''_'' # rev c)"
      by (rule takeWhile_append2) (simp add: dec_digits)
    then show ?thesis using nd by simp
  qed
  from assms have "rev (dec i) = rev (dec j)"
    using tw [of c1 i] tw [of c2 j] by simp
  then have "index_of (dec i) = index_of (dec j)" by simp
  then show ?thesis by (simp add: index_of_dec)
qed

subsection \<open>The table of ids\<close>

lemma grows_refl [simp]: "grows s s"
  by (simp add: grows_def)

lemma grows_trans: "grows a b \<Longrightarrow> grows b c \<Longrightarrow> grows a c"
  by (auto simp: grows_def)

lemma grows_step:
  assumes "map_of seen a = None"
  shows "grows seen (AList.update a (c @ ''_'' @ dec (length seen)) seen)"
proof -
  have "a \<notin> fst ` set seen" using assms by (simp add: map_of_eq_None_iff)
  then show ?thesis
    using assms by (auto simp: grows_def update_absent seen_inv_def nth_append less_Suc_eq)
qed

lemma seen_inv_distinct_ids:
  assumes "seen_inv seen"
  shows "distinct (map snd seen)"
proof -
  have "snd (seen ! i) \<noteq> snd (seen ! j)" if ij: "i < length seen" "j < length seen" "i \<noteq> j" for i j
  proof -
    obtain c1 where c1: "snd (seen ! i) = c1 @ ''_'' @ dec i"
      using assms ij(1) unfolding seen_inv_def by blast
    obtain c2 where c2: "snd (seen ! j) = c2 @ ''_'' @ dec j"
      using assms ij(2) unfolding seen_inv_def by blast
    show ?thesis using ident_suffix_inj [of c1 i c2 j] ij(3) c1 c2 by auto
  qed
  then show ?thesis by (simp add: distinct_conv_nth)
qed

lemma ser_loops_grow:
  assumes IH: "\<And>v seen sv seen'. serializeObject n e h v seen = Ok (sv, seen') \<Longrightarrow> grows seen seen'"
  shows "serItems n e h xs seen = Ok (svs, seen') \<Longrightarrow> grows seen seen'"
    and "serEntries n e h es seen = Ok (svs, seen') \<Longrightarrow> grows seen seen'"
    and "serProps n e h keys ps jo seen = Ok (jo', seen') \<Longrightarrow> grows seen seen'"
proof -
  have child: "grows s s'" if "(if isObject v then serializeObject n e h v s else Ok (SV v, s)) = Ok (sv, s')"
    for v s sv s'
    using that IH by (auto split: if_splits)
  show "serItems n e h xs seen = Ok (svs, seen') \<Longrightarrow> grows seen seen'"
  proof (induction xs arbitrary: seen svs seen')
    case Nil
    then show ?case by simp
  next
    case (Cons x xs)
    then show ?case
      by (auto simp: bind_Ok_iff dest!: child intro: grows_trans)
  qed
  show "serEntries n e h es seen = Ok (svs, seen') \<Longrightarrow> grows seen seen'"
  proof (induction es arbitrary: seen svs seen')
    case Nil
    then show ?case by simp
  next
    case (Cons x xs)
    obtain k v where x: "x = (k, v)" by (cases x)
    from Cons.prems show ?case unfolding x
      by (auto simp: bind_Ok_iff dest!: child Cons.IH intro: grows_trans)
  qed
  show "serProps n e h keys ps jo seen = Ok (jo', seen') \<Longrightarrow> grows seen seen'"
  proof (induction keys arbitrary: seen jo jo' seen')
    case Nil
    then show ?case by simp
  next
    case (Cons key keys)
    then show ?case
      by (auto simp: bind_Ok_iff split: option.splits dest!: child Cons.IH intro: grows_trans)
  qed
qed

lemma serializeObject_grows:
  "serializeObject n e h v seen = Ok (sv, seen') \<Longrightarrow> grows seen seen'"
proof (induction n arbitrary: v seen sv seen')
  case 0
  then show ?case by simp
next
  case (Suc n)
  note loops = ser_loops_grow [OF Suc.IH]
  show ?case
  proof (cases v)
    case (Ref a)
    show ?thesis
    proof (cases "map_of seen a")
      case (Some ident)
      with Suc.prems Ref show ?thesis
        by (auto simp: bind_Ok_iff)
    next
      case None
      from Suc.prems Ref None obtain ob k where ob: "lookup h a = Ok ob"
        and k: "constructor_of ob = Ok (Some k)"
        by (auto simp: bind_Ok_iff split: option.splits)
      define ident where "ident = getClassName (cname k) @ ''_'' @ dec (length seen)"
      define seen1 where "seen1 = AList.update a ident seen"
      have step: "grows seen seen1"
        unfolding seen1_def ident_def using None by (rule grows_step)
      have "grows seen1 seen'"
        using Suc.prems Ref None ob k
        by (auto simp: bind_Ok_iff Let_def seen1_def ident_def
            split: option.splits if_splits slot.splits intro: loops)
      then show ?thesis using step by (auto intro: grows_trans)
    qed
  qed (use Suc.prems in auto)
qed

lemma unregistered_passthrough:
  assumes "a < length h" and "map_of seen a = None" and "proto (h ! a) = Some k"
    and "''constructor'' \<notin> fst ` set (props (h ! a))"
    and "''__proto__'' \<notin> fst ` set (props (h ! a))"
    and "classMap e (getClassName (cname k)) = None"
  shows "serializeObject (Suc n) e h (Ref a) seen =
     Ok (SV (Ref a), seen @ [(a, getClassName (cname k) @ ''_'' @ dec (length seen))])"
  using assms by (simp add: constructor_of_def Let_def update_absent)

lemma seen_again:
  assumes "a < length h" and "map_of seen a = Some ident"
  shows "serializeObject (Suc n) e h (Ref a) seen = Ok (SObj [(''__ref'', SV (Str ident))], seen)"
  using assms by simp

lemma first_visit:
  assumes "serializeObject n e h (Ref a) seen = Ok (sv, seen')" and "map_of seen a = None"
  shows "\<exists>k. a < length h \<and> proto (h ! a) = Some k \<and> length seen < length seen'
      \<and> seen' ! length seen = (a, getClassName (cname k) @ ''_'' @ dec (length seen))"
proof (cases n)
  case 0
  with assms show ?thesis by simp
next
  case (Suc m)
  from assms Suc obtain ob k where ob: "lookup h a = Ok ob" and k: "constructor_of ob = Ok (Some k)"
    by (auto simp: bind_Ok_iff split: option.splits)
  from ob have a: "a < length h" and obh: "ob = h ! a"
    by (auto simp: lookup_def split: if_splits)
  from k have pk: "proto (h ! a) = Some k"
    by (auto simp: constructor_of_def obh split: if_splits)
  define ident where "ident = getClassName (cname k) @ ''_'' @ dec (length seen)"
  note loops = ser_loops_grow [OF serializeObject_grows]
  have "grows (seen @ [(a, ident)]) seen'"
    using assms Suc ob k
    by (auto simp: bind_Ok_iff Let_def ident_def update_absent
        split: option.splits if_splits slot.splits intro: loops)
  then have "prefix (seen @ [(a, ident)]) seen'" by (simp add: grows_def)
  then obtain ext where "seen' = seen @ [(a, ident)] @ ext" by (auto simp: prefix_def)
  then show ?thesis using a pk by (auto simp: ident_def nth_append)
qed

section \<open>Frames of the heap\<close>

lemma same_but_refl [simp]: "same_but a h h"
  by (simp add: same_but_def)

lemma same_but_trans: "same_but a h h1 \<Longrightarrow> same_but a h1 h2 \<Longrightarrow> same_but a h h2"
  by (auto simp: same_but_def)

lemma prefix_same_but: "prefix h h' \<Longrightarrow> same_but a h h'"
  by (auto simp: same_but_def prefix_def nth_append)

lemma same_but_set_prop: "same_but a h (set_prop a k v h)"
  by (simp add: same_but_def set_prop_def)

lemma same_but_set_add: "set_add a v h = Ok h' \<Longrightarrow> same_but a h h'"
  by (auto simp: same_but_def set_add_def split: slot.splits)

lemma same_but_map_set: "map_set a k v h = Ok h' \<Longrightarrow> same_but a h h'"
  by (auto simp: same_but_def map_set_def split: slot.splits)

lemma same_but_new:
  assumes "same_but (length h) (h @ [ob]) h'"
  shows "prefix h h'"
proof -
  from assms have len: "length h < length h'" and eq: "\<forall>x < length h. h' ! x = h ! x"
    by (auto simp: same_but_def nth_append)
  have "take (length h) h' = h"
    using len eq by (auto simp: list_eq_iff_nth_eq)
  then show ?thesis by (metis take_is_prefix)
qed

lemma des_loops_frame:
  assumes IH: "\<And>j h r v h' r'. deserializeObject n e j (h, r) = Ok (v, (h', r')) \<Longrightarrow> prefix h h'"
  shows "desItems n e vs a (h, r) = Ok (h', r') \<Longrightarrow> same_but a h h'"
    and "desEntries n e es a (h, r) = Ok (h', r') \<Longrightarrow> same_but a h h'"
    and "desProps n e g ps a (h, r) = Ok (h', r') \<Longrightarrow> same_but a h h'"
proof -
  have child: "same_but a h h'" if "desChild n e x (h, r) = Ok (v, (h', r'))" for x h r v h' r'
  proof (cases x)
    case None
    with that show ?thesis by simp
  next
    case (Some j)
    with that IH [of j h r v h' r'] show ?thesis
      by (auto split: if_splits intro: prefix_same_but)
  qed
  show "desItems n e vs a (h, r) = Ok (h', r') \<Longrightarrow> same_but a h h'"
  proof (induction vs arbitrary: h r)
    case Nil
    then show ?case by simp
  next
    case (Cons v vs)
    from Cons.prems obtain v' h1 r1 h2 where
      c: "desChild n e (Some v) (h, r) = Ok (v', (h1, r1))" and s: "set_add a v' h1 = Ok h2"
      and rest: "desItems n e vs a (h2, r1) = Ok (h', r')"
      by (auto simp: bind_Ok_iff simp del: desChild.simps)
    from child [OF c] same_but_set_add [OF s] Cons.IH [OF rest] show ?case
      by (blast intro: same_but_trans)
  qed
  show "desEntries n e es a (h, r) = Ok (h', r') \<Longrightarrow> same_but a h h'"
  proof (induction es arbitrary: h r)
    case Nil
    then show ?case by simp
  next
    case (Cons v vs)
    from Cons.prems obtain kj vj k' h1 r1 v' h2 r2 h3 where
      c1: "desChild n e kj (h, r) = Ok (k', (h1, r1))"
      and c2: "desChild n e vj (h1, r1) = Ok (v', (h2, r2))"
      and s: "map_set a k' v' h2 = Ok h3"
      and rest: "desEntries n e vs a (h3, r2) = Ok (h', r')"
      by (auto simp: bind_Ok_iff simp del: desChild.simps)
    from child [OF c1] child [OF c2] same_but_map_set [OF s] Cons.IH [OF rest] show ?case
      by (blast intro: same_but_trans)
  qed
  show "desProps n e g ps a (h, r) = Ok (h', r') \<Longrightarrow> same_but a h h'"
  proof (induction ps arbitrary: h r)
    case Nil
    then show ?case by simp
  next
    case (Cons p ps)
    obtain k j where p: "p = (k, j)" by (cases p)
    show ?case
    proof (cases "k \<noteq> ''__class'' \<and> k \<noteq> ''__id'' \<and> (if g then reads_undefined (h ! a) k else True)")
      case False
      with Cons.prems have "desProps n e g ps a (h, r) = Ok (h', r')"
        unfolding p by (simp split: if_splits)
      then show ?thesis by (rule Cons.IH)
    next
      case True
      with Cons.prems obtain v' h1 r1 where
        c: "desChild n e (Some j) (h, r) = Ok (v', (h1, r1))"
        and rest: "desProps n e g ps a (set_prop a k v' h1, r1) = Ok (h', r')"
        unfolding p by (auto simp: bind_Ok_iff simp del: desChild.simps split: if_splits)
      from child [OF c] same_but_set_prop [of a h1 k v'] Cons.IH [OF rest] show ?thesis
        by (blast intro: same_but_trans)
    qed
  qed
qed

lemma deserializeObject_frame:
  "deserializeObject n e j (h, r) = Ok (v, (h', r')) \<Longrightarrow> prefix h h'"
proof (induction n arbitrary: j h r v h' r')
  case 0
  then show ?case by simp
next
  case (Suc n)
  note loops = des_loops_frame [OF Suc.IH]
  show ?case
  proof (cases "composite j \<and> \<not> truthy (field j ''__ref'')")
    case False
    with Suc.prems show ?thesis by (auto split: if_splits)
  next
    case True
    show ?thesis
    proof (cases "class_of e j")
      case None
      with Suc.prems True have "same_but (length h) (h @ [\<lparr>proto = Some ObjectC, slot = NoSlot, props = []\<rparr>]) h'"
        by (auto simp: bind_Ok_iff alloc_def Let_def split: if_splits intro: loops)
      then show ?thesis by (rule same_but_new)
    next
      case (Some c)
      with Suc.prems True obtain shell where shell: "decode_shell e c j = Ok shell"
        by (auto simp: bind_Ok_iff)
      with Suc.prems True Some have "same_but (length h) (h @ [shell]) h'"
        by (auto simp: bind_Ok_iff alloc_def Let_def split: if_splits intro: loops)
      then show ?thesis by (rule same_but_new)
    qed
  qed
qed

lemma bind_Throw_iff:
  "bind m f = Throw err \<longleftrightarrow> m = Throw err \<or> (\<exists>x. m = Ok x \<and> f x = Throw err)"
  by (cases m) simp_all

lemma desChild_frame: "desChild n e x (h, r) = Ok (v, (h', r')) \<Longrightarrow> prefix h h'"
  by (cases x) (auto split: if_splits dest: deserializeObject_frame)


section \<open>Nodes of an unknown kind\<close>

text \<open>
  C7: decoding a node whose type tag is not in the registry does not throw and yields a
  plain record of the node's own members, the tag and the id left out. The branch of
  lines 163-174 does that for the node \<open>{"__class":"Foo","__id":"Foo_0","x":1}\<close>, whose
  decoding is the record \<open>{x: 1}\<close>. For the node \<open>{"__class":"Foo","hasOwnProperty":1}\<close>
  the loop of line 166 calls \<open>jsonObject.hasOwnProperty(key)\<close> (line 167), which on
  this node is the number 1 and not the method: the decoding throws a TypeError where the
  claim has the record \<open>{hasOwnProperty: 1}\<close>.
\<close>

theorem unknown_kind_throws:
  "deserialize (Suc 0) host0 [] shadowing_node = Throw TypeError
 \<and> deserialize (Suc 0) host0 [] tagged_node = Ok (Ref 0, [record_of [(''x'', Num 1)]])"
  by (simp add: deserialize_def shadowing_node_def tagged_node_def class_of_def classMap_def
      host0_def alloc_def Let_def hasOwnProperty_callable_def record_of_def set_prop_def
      refs_set_def is_key_def reads_undefined_def)

section \<open>The full copy\<close>



lemma image_of_prim [simp]: "\<not> isObject v \<Longrightarrow> image_of seen v = v"
  by (cases v) (simp_all add: image_of_def)

lemma known_prim [simp]: "\<not> isObject v \<Longrightarrow> known seen v"
  by (cases v) (simp_all add: known_def)








lemma cinv_keys: "cinv h S h1 seen \<Longrightarrow> fst ` set seen \<subseteq> S"
proof
  fix b assume c: "cinv h S h1 seen" and "b \<in> fst ` set seen"
  then obtain i where "i < length seen" "fst (seen ! i) = b"
    by (metis fst_conv imageE in_set_conv_nth prod.collapse)
  with c show "b \<in> S" by (auto simp: cinv_def)
qed


















































end
